theory Spec2Isabelle
  imports Main "HOL-Library.AList"
begin

section \<open>Exceptions\<close>

text \<open>
  The exceptions the modelled code raises or lets through. The two registry
  exceptions are the classes of \<^verbatim>\<open>qtapp/exceptions/__init__.py\<close>; the others are
  the Python built-ins the loader and the manifest reader propagate.
  A call that may raise returns a pair: the exception raised, if any, and the
  state the call leaves behind. Python mutates in place, so the writes done
  before a raise stay visible and the state is returned in both cases.
\<close>

datatype error =
    RegistrableAlreadyExistsError
  | RegistrableNotFoundError
  | FileNotFoundError
  | PermissionError
  | JSONDecodeError
  | TypeError
  | OtherException string

type_synonym 's outcome = "error option \<times> 's"

section \<open>Classes and runtime types\<close>

text \<open>
  A Python class object: its identity (classes compare by identity, and executing
  a \<^verbatim>\<open>class\<close> statement again makes a new class), its name and its direct
  bases. \<^verbatim>\<open>issubclass(c, d)\<close> holds when \<^verbatim>\<open>d\<close> is \<^verbatim>\<open>c\<close> or is reachable
  through the bases.
\<close>

datatype pyclass = PyClass (cid: nat) (cname: string) (cbases: "pyclass list")

fun issubclass :: "pyclass \<Rightarrow> pyclass \<Rightarrow> bool" where
  "issubclass (PyClass i n bs) d = (PyClass i n bs = d \<or> (\<exists>b \<in> set bs. issubclass b d))"

definition QObject :: pyclass where
  "QObject = PyClass 0 ''QObject'' []"

definition Registrable_class :: pyclass where
  "Registrable_class = PyClass 1 ''Registrable'' [QObject]"

section \<open>Registrable and BaseRegistry (qtapp/utils/registrable.py)\<close>

text \<open>
  \<^verbatim>\<open>class Registrable(QObject): id: str = None\<close>. The identifier is a class
  attribute that defaults to \<^verbatim>\<open>None\<close>, hence an optional string. The field
  \<open>cls\<close> is \<^verbatim>\<open>type(registrable)\<close>.
\<close>

record Registrable =
  cls :: pyclass
  ident :: "string option"

datatype 'a signal = registrableAdded 'a | registrableRemoved 'a

text \<open>
  \<^verbatim>\<open>self._registrables\<close> is a Python dict: keys are unique and iteration follows
  insertion order, so it is an association list; \<^verbatim>\<open>d.get(k)\<close> is
  \<^const>\<open>map_of\<close>, \<^verbatim>\<open>d[k] = v\<close> is \<^const>\<open>AList.update\<close> (replace in place, or append
  a new key at the end) and \<^verbatim>\<open>d.pop(k)\<close> is \<^const>\<open>AList.delete\<close>.
  \<open>emitted\<close> is the sequence of signals the registry has emitted so far.
\<close>

record 'a BaseRegistry =
  registrables :: "(string option \<times> 'a) list"
  registry_class :: pyclass
  emitted :: "'a signal list"

definition BaseRegistry_init :: "pyclass \<Rightarrow> 'a BaseRegistry" where
  "BaseRegistry_init class_arg =
     \<lparr>registrables = [], registry_class = class_arg, emitted = []\<rparr>"

definition registrable :: "'a BaseRegistry \<Rightarrow> string option \<Rightarrow> 'a option" where
  "registrable self i = map_of (registrables self) i"

text \<open>The argument of \<^verbatim>\<open>add\<close> and \<^verbatim>\<open>remove\<close>: \<^verbatim>\<open>T | list[T]\<close>.\<close>

datatype 'a one_or_list = Single 'a | Several "'a list"

text \<open>
  \<^verbatim>\<open>BaseRegistry.add\<close>. The \<^verbatim>\<open>for r in registrable: self.add(r)\<close> loop is the
  recursion on \<open>Several\<close>; an exception of the inner call leaves the loop.
\<close>

fun add :: "('m Registrable_scheme) BaseRegistry \<Rightarrow> ('m Registrable_scheme) one_or_list
              \<Rightarrow> ('m Registrable_scheme) BaseRegistry outcome" where
  "add self (Several []) = (None, self)"
| "add self (Several (r # rs)) =
     (case add self (Single r) of
        (Some e, self') \<Rightarrow> (Some e, self')
      | (None, self') \<Rightarrow> add self' (Several rs))"
| "add self (Single r) =
     (if map_of (registrables self) (ident r) \<noteq> None
      then (Some RegistrableAlreadyExistsError, self)
      else (None, self\<lparr>registrables := AList.update (ident r) r (registrables self),
                        emitted := emitted self @ [registrableAdded r]\<rparr>))"

text \<open>\<^verbatim>\<open>BaseRegistry.remove\<close>.\<close>

fun remove :: "('m Registrable_scheme) BaseRegistry \<Rightarrow> ('m Registrable_scheme) one_or_list
              \<Rightarrow> ('m Registrable_scheme) BaseRegistry outcome" where
  "remove self (Several []) = (None, self)"
| "remove self (Several (r # rs)) =
     (case remove self (Single r) of
        (Some e, self') \<Rightarrow> (Some e, self')
      | (None, self') \<Rightarrow> remove self' (Several rs))"
| "remove self (Single r) =
     (if map_of (registrables self) (ident r) = None
      then (Some RegistrableNotFoundError, self)
      else (None, self\<lparr>registrables := AList.delete (ident r) (registrables self),
                        emitted := emitted self @ [registrableRemoved r]\<rparr>))"

text \<open>
  A caller issuing one \<^verbatim>\<open>add\<close> call after the other on the same registry,
  whether or not a call raised.
\<close>

definition add_calls :: "('m Registrable_scheme) BaseRegistry
    \<Rightarrow> ('m Registrable_scheme) one_or_list list \<Rightarrow> ('m Registrable_scheme) BaseRegistry" where
  "add_calls self calls = fold (\<lambda>a s. snd (add s a)) calls self"


text \<open>
  The registry invariant: keys are pairwise distinct and every key is the
  identifier of the item stored under it.
\<close>

definition keyed_by_id :: "('m Registrable_scheme) BaseRegistry \<Rightarrow> bool" where
  "keyed_by_id self \<longleftrightarrow>
     distinct (map fst (registrables self)) \<and>
     (\<forall>p \<in> set (registrables self). fst p = ident (snd p))"

text \<open>Three registrables used to evaluate the registry on concrete inputs.\<close>

definition reg_a :: Registrable where "reg_a = \<lparr>cls = Registrable_class, ident = Some ''a''\<rparr>"
definition reg_b :: Registrable where "reg_b = \<lparr>cls = Registrable_class, ident = Some ''b''\<rparr>"
definition reg_c :: Registrable where "reg_c = \<lparr>cls = Registrable_class, ident = Some ''c''\<rparr>"


section \<open>Worker (qtapp/utils/worker.py)\<close>

text \<open>
  An exception caught by the bare \<^verbatim>\<open>except:\<close> of \<^verbatim>\<open>Worker.run\<close>: the two values
  read from \<^verbatim>\<open>sys.exc_info()[:2]\<close> and the text \<^verbatim>\<open>traceback.format_exc()\<close> gives.
\<close>

record raised =
  excType :: string
  excValue :: string
  format_exc :: string

text \<open>
  What one execution of \<^verbatim>\<open>run\<close> does, in order: the traceback printed to
  stderr and the three signals of \<^verbatim>\<open>WorkerSignals\<close>.
\<close>

datatype 'r effect =
    print_exc string
  | error_emit "string \<times> string \<times> string"
  | result_emit 'r
  | finished_emit

text \<open>
  \<^verbatim>\<open>self.fn(*self.args, **self.kwargs)\<close> either raises or returns a value; the
  positional and keyword arguments are one value of type \<open>'a\<close>.
\<close>

record ('a, 'r) Worker =
  fn :: "'a \<Rightarrow> raised + 'r"
  args :: 'a

definition Worker_init :: "('a \<Rightarrow> raised + 'r) \<Rightarrow> 'a \<Rightarrow> ('a, 'r) Worker" where
  "Worker_init f a = \<lparr>fn = f, args = a\<rparr>"

text \<open>\<^verbatim>\<open>Worker.run\<close>: the \<^verbatim>\<open>try / except / else / finally\<close> statement.\<close>

definition run :: "('a, 'r) Worker \<Rightarrow> 'r effect list" where
  "run self =
     (case fn self (args self) of
        Inl exc \<Rightarrow>
          [print_exc (format_exc exc),
           error_emit (excType exc, excValue exc, format_exc exc)]
      | Inr result \<Rightarrow> [result_emit result])
     @ [finished_emit]"

fun is_result :: "'r effect \<Rightarrow> bool" where
  "is_result (result_emit v) = True"
| "is_result e = False"

fun is_error :: "'r effect \<Rightarrow> bool" where
  "is_error (error_emit t) = True"
| "is_error e = False"

fun is_finished :: "'r effect \<Rightarrow> bool" where
  "is_finished finished_emit = True"
| "is_finished e = False"

text \<open>The signals among the effects, in emission order.\<close>

definition signals :: "'r effect list \<Rightarrow> 'r effect list" where
  "signals es = filter (\<lambda>e. is_result e \<or> is_error e \<or> is_finished e) es"

text \<open>Two tasks used to evaluate the worker: one returns, one raises.\<close>

definition task_ok :: "(nat, nat) Worker" where
  "task_ok = Worker_init (\<lambda>n. Inr (n + 1)) 41"

definition task_fail :: "(nat, nat) Worker" where
  "task_fail = Worker_init
     (\<lambda>n. Inl \<lparr>excType = ''ValueError'', excValue = ''bad'', format_exc = ''Traceback''\<rparr>) 0"

section \<open>RegistrableLoader (qtapp/utils/registrable.py)\<close>

text \<open>
  \<^verbatim>\<open>pathlib\<close>'s \<^verbatim>\<open>suffix\<close> of a file name: the text from the last dot on, when
  that dot is neither the first nor the last character of the name; empty
  otherwise.
\<close>

definition suffix :: "string \<Rightarrow> string" where
  "suffix name =
     (let ext = rev (takeWhile (\<lambda>c. c \<noteq> CHR ''.'') (rev name))
      in if CHR ''.'' \<in> set name \<and> ext \<noteq> [] \<and> length ext + 1 < length name
         then CHR ''.'' # ext else [])"

definition startswith :: "string \<Rightarrow> string \<Rightarrow> bool" where
  "startswith s p = (take (length p) s = p)"

definition isValidModule :: "string \<Rightarrow> string \<Rightarrow> bool" where
  "isValidModule modname ext = (ext = ''.py'' \<and> \<not> startswith modname ''.'')"

text \<open>
  A value bound at the top level of a loaded module: a class, for which
  \<^verbatim>\<open>isinstance(obj, type)\<close> holds, or anything else.
\<close>

datatype pyobject = Type pyclass | NotAType

text \<open>
  The part of the file system the loader walks. \<open>Dir\<close> is a directory with
  its entries in \<^verbatim>\<open>iterdir()\<close> order; \<open>NoAccess\<close> is a directory whose listing
  raises \<^verbatim>\<open>PermissionError\<close>; \<open>File\<close> is any path that is not a directory,
  with its name and the outcome of \<^verbatim>\<open>_loadModule\<close> on it: the exception raised
  (\<^verbatim>\<open>FileNotFoundError\<close> when nothing is there, or whatever executing the
  file raises) or the items of the module's \<^verbatim>\<open>__dict__\<close>.
\<close>

datatype fsnode =
    File string "error + (string \<times> pyobject) list"
  | Dir string "fsnode list"
  | NoAccess string

fun is_dir :: "fsnode \<Rightarrow> bool" where
  "is_dir (File n x) = False"
| "is_dir (Dir n entries) = True"
| "is_dir (NoAccess n) = True"

text \<open>
  The loop \<^verbatim>\<open>for _, obj in module.__dict__.items()\<close>. \<open>ctor c\<close> is the call
  \<^verbatim>\<open>obj(*args, **kwargs)\<close> on class \<open>c\<close>: it raises or returns the new
  instance. A raising constructor ends the loop and the call.
\<close>

fun instantiate :: "(pyclass \<Rightarrow> error + 'i) \<Rightarrow> pyclass \<Rightarrow> (string \<times> pyobject) list
                      \<Rightarrow> error + 'i list" where
  "instantiate ctor class_arg [] = Inr []"
| "instantiate ctor class_arg ((n, NotAType) # bindings) = instantiate ctor class_arg bindings"
| "instantiate ctor class_arg ((n, Type obj) # bindings) =
     (if issubclass obj class_arg \<and> obj \<noteq> class_arg
      then (case ctor obj of
              Inl e \<Rightarrow> Inl e
            | Inr r \<Rightarrow> (case instantiate ctor class_arg bindings of
                          Inl e \<Rightarrow> Inl e
                        | Inr rs \<Rightarrow> Inr (r # rs)))
      else instantiate ctor class_arg bindings)"

text \<open>
  \<^verbatim>\<open>RegistrableLoader._loadRegistrablesFromModule\<close> on a non-directory path with
  file name \<open>name\<close>. The constructor takes the extra arguments first.
\<close>

definition loadRegistrablesFromModule ::
  "('args \<Rightarrow> pyclass \<Rightarrow> error + 'i) \<Rightarrow> string \<Rightarrow> error + (string \<times> pyobject) list
     \<Rightarrow> pyclass \<Rightarrow> 'args \<Rightarrow> error + 'i list" where
  "loadRegistrablesFromModule ctor name loadModule class_arg argv =
     (if \<not> isValidModule name (suffix name) then Inr []
      else (case loadModule of
              Inl err \<Rightarrow> Inl err
            | Inr module_bindings \<Rightarrow> instantiate (ctor argv) class_arg module_bindings))"

text \<open>
  \<^verbatim>\<open>RegistrableLoader.load\<close>; \<open>load_iterdir\<close> is its loop over
  \<^verbatim>\<open>path.iterdir()\<close>, extending the result list entry by entry.
\<close>

fun load :: "('args \<Rightarrow> pyclass \<Rightarrow> error + 'i) \<Rightarrow> fsnode \<Rightarrow> pyclass \<Rightarrow> 'args
               \<Rightarrow> error + 'i list"
  and load_iterdir :: "('args \<Rightarrow> pyclass \<Rightarrow> error + 'i) \<Rightarrow> fsnode list \<Rightarrow> pyclass \<Rightarrow> 'args
               \<Rightarrow> error + 'i list" where
  "load ctor (Dir n entries) class_arg argv = load_iterdir ctor entries class_arg argv"
| "load ctor (NoAccess n) class_arg argv = Inl PermissionError"
| "load ctor (File n loadModule) class_arg argv =
     loadRegistrablesFromModule ctor n loadModule class_arg argv"
| "load_iterdir ctor [] class_arg argv = Inr []"
| "load_iterdir ctor (itemFile # rest) class_arg argv =
     (case (if is_dir itemFile then load ctor itemFile class_arg argv
            else (case itemFile of
                    File n loadModule \<Rightarrow>
                      loadRegistrablesFromModule ctor n loadModule class_arg argv
                  | _ \<Rightarrow> Inr [])) of
        Inl err \<Rightarrow> Inl err
      | Inr found \<Rightarrow>
          (case load_iterdir ctor rest class_arg argv of
             Inl err \<Rightarrow> Inl err
           | Inr others \<Rightarrow> Inr (found @ others)))"

text \<open>
  The classes bound at the top level of a module that are subclasses of the
  requested class without being that class, one per binding, in order.
\<close>

definition implementing :: "pyclass \<Rightarrow> (string \<times> pyobject) list \<Rightarrow> pyclass list" where
  "implementing class_arg module_bindings =
     concat (map (\<lambda>(n, obj). case obj of
                    Type c \<Rightarrow> if issubclass c class_arg \<and> c \<noteq> class_arg then [c] else []
                  | NotAType \<Rightarrow> []) module_bindings)"

section \<open>The capability classes\<close>

text \<open>
  \<^verbatim>\<open>BasePlugin\<close>, \<^verbatim>\<open>BaseDock\<close> and \<^verbatim>\<open>BaseSetting\<close> each derive from
  \<^verbatim>\<open>Registrable\<close> (the three \<^verbatim>\<open>__init__.py\<close> files of plugins, docks, settings).
\<close>

definition BasePlugin_class :: pyclass where
  "BasePlugin_class = PyClass 2 ''BasePlugin'' [Registrable_class]"

definition BaseDock_class :: pyclass where
  "BaseDock_class = PyClass 3 ''BaseDock'' [Registrable_class]"

definition BaseSetting_class :: pyclass where
  "BaseSetting_class = PyClass 4 ''BaseSetting'' [Registrable_class]"

text \<open>
  A module as \<^verbatim>\<open>examples/demo.py\<close> gives it to the loader: its namespace binds
  the imported \<^verbatim>\<open>BasePlugin\<close> itself, a subclass \<^verbatim>\<open>DemoPlugin\<close>, and values
  that are no plugin classes. \<open>construct_any\<close> is a constructor that succeeds on
  every class and takes no extra argument.
\<close>

definition DemoPlugin_class :: pyclass where
  "DemoPlugin_class = PyClass 10 ''DemoPlugin'' [BasePlugin_class]"

definition demo_items :: "(string \<times> pyobject) list" where
  "demo_items = [(''__name__'', NotAType), (''BasePlugin'', Type BasePlugin_class),
                 (''DemoPlugin'', Type DemoPlugin_class), (''QObject'', Type QObject)]"

definition construct_any :: "unit \<Rightarrow> pyclass \<Rightarrow> error + Registrable" where
  "construct_any u c = Inr \<lparr>cls = c, ident = Some (cname c)\<rparr>"

section \<open>Manifests and modules (qtapp/plugins/schemas.py)\<close>

text \<open>
  The values \<^verbatim>\<open>json.load\<close> returns: \<^verbatim>\<open>None\<close>, booleans, integers, floats (kept
  as their decimal text), strings, lists, and dicts with string keys in file
  order.
\<close>

datatype pyvalue =
    PyNone
  | PyBool bool
  | PyInt int
  | PyFloat string
  | PyStr string
  | PyList "pyvalue list"
  | PyDict "(string \<times> pyvalue) list"

text \<open>
  The file system and \<^verbatim>\<open>pathlib\<close>, as far as the code uses them, over a type
  \<open>'p\<close> of paths: \<^verbatim>\<open>Path(p).resolve()\<close>, \<^verbatim>\<open>p.parent\<close>, \<^verbatim>\<open>p.joinpath(s)\<close>; what
  \<^verbatim>\<open>open\<close> followed by \<^verbatim>\<open>json.load\<close> gives at a path; and what the loader finds
  at a path.
\<close>

datatype file_content = NoFile | NotJson | Json pyvalue

record 'p os =
  resolve :: "'p \<Rightarrow> 'p"
  parent :: "'p \<Rightarrow> 'p"
  joinpath :: "'p \<Rightarrow> string \<Rightarrow> 'p"
  read_json :: "'p \<Rightarrow> file_content"
  node :: "'p \<Rightarrow> fsnode"

text \<open>
  \<^verbatim>\<open>@dataclass(frozen=True) class ModuleMetadata\<close> with fields \<^verbatim>\<open>id\<close>,
  \<^verbatim>\<open>relativePath\<close>, \<^verbatim>\<open>displayName\<close> and \<^verbatim>\<open>description = None\<close>. The annotations
  are not checked at run time, so a field holds whatever value the manifest has.
\<close>

record ModuleMetadata =
  md_id :: pyvalue
  md_relativePath :: pyvalue
  md_displayName :: pyvalue
  md_description :: pyvalue

definition field_names :: "string list" where
  "field_names = [''id'', ''relativePath'', ''displayName'', ''description'']"

text \<open>
  \<^verbatim>\<open>ModuleMetadata(**obj)\<close>: \<^verbatim>\<open>TypeError\<close> when \<^verbatim>\<open>obj\<close> is no mapping, when it
  has a key that is no field, or when one of the three fields without default
  is missing.
\<close>

definition ModuleMetadata_init :: "pyvalue \<Rightarrow> error + ModuleMetadata" where
  "ModuleMetadata_init obj =
     (case obj of
        PyDict kw \<Rightarrow>
          if \<exists>k \<in> set (map fst kw). k \<notin> set field_names then Inl TypeError
          else (case (map_of kw ''id'', map_of kw ''relativePath'', map_of kw ''displayName'') of
                  (Some i, Some r, Some d) \<Rightarrow>
                    Inr \<lparr>md_id = i, md_relativePath = r, md_displayName = d,
                         md_description =
                           (case map_of kw ''description'' of None \<Rightarrow> PyNone | Some v \<Rightarrow> v)\<rparr>
                | _ \<Rightarrow> Inl TypeError)
      | _ \<Rightarrow> Inl TypeError)"

text \<open>
  \<^verbatim>\<open>for obj in jsonData\<close>: a list gives its elements, a dict its keys, a string
  its characters; the other values are not iterable.
\<close>

definition iterate :: "pyvalue \<Rightarrow> error + pyvalue list" where
  "iterate v =
     (case v of
        PyList xs \<Rightarrow> Inr xs
      | PyDict kw \<Rightarrow> Inr (map (\<lambda>(k, x). PyStr k) kw)
      | PyStr s \<Rightarrow> Inr (map (\<lambda>c. PyStr [c]) s)
      | _ \<Rightarrow> Inl TypeError)"

text \<open>The comprehension \<^verbatim>\<open>[ModuleMetadata(**obj) for obj in jsonData]\<close>.\<close>

fun modulesMetadata_of :: "pyvalue list \<Rightarrow> error + ModuleMetadata list" where
  "modulesMetadata_of [] = Inr []"
| "modulesMetadata_of (obj # objs) =
     (case ModuleMetadata_init obj of
        Inl e \<Rightarrow> Inl e
      | Inr m \<Rightarrow> (case modulesMetadata_of objs of
                    Inl e \<Rightarrow> Inl e
                  | Inr ms \<Rightarrow> Inr (m # ms)))"

record 'p Repository =
  repo_path :: 'p
  modulesMetadata :: "ModuleMetadata list"

text \<open>\<^verbatim>\<open>Repository.loadFromFile\<close>.\<close>

definition loadFromFile :: "'p os \<Rightarrow> 'p \<Rightarrow> error + 'p Repository" where
  "loadFromFile os p =
     (let path = resolve os p in
      case read_json os path of
        NoFile \<Rightarrow> Inl FileNotFoundError
      | NotJson \<Rightarrow> Inl JSONDecodeError
      | Json jsonData \<Rightarrow>
          (case iterate jsonData of
             Inl e \<Rightarrow> Inl e
           | Inr objs \<Rightarrow>
               (case modulesMetadata_of objs of
                  Inl e \<Rightarrow> Inl e
                | Inr ms \<Rightarrow> Inr \<lparr>repo_path = parent os path, modulesMetadata = ms\<rparr>)))"

text \<open>
  \<^verbatim>\<open>class Module\<close>. The class defines no \<^verbatim>\<open>__eq__\<close>, so two modules are equal
  only when they are the same object: \<open>addr\<close> is the identity of the object.
\<close>

record 'p Module =
  addr :: nat
  module_id :: pyvalue
  module_displayName :: pyvalue
  module_description :: pyvalue
  module_path :: 'p
  enabled :: bool

text \<open>
  \<^verbatim>\<open>Module.__init__\<close> for the new object \<open>a\<close>. \<^verbatim>\<open>joinpath\<close> raises \<^verbatim>\<open>TypeError\<close>
  on an argument that is no string.
\<close>

definition Module_init :: "'p os \<Rightarrow> nat \<Rightarrow> 'p \<Rightarrow> ModuleMetadata \<Rightarrow> error + 'p Module" where
  "Module_init os a dirPath metadata =
     (case md_relativePath metadata of
        PyStr rel \<Rightarrow>
          Inr \<lparr>addr = a,
               module_id = md_id metadata,
               module_displayName = md_displayName metadata,
               module_description = md_description metadata,
               module_path = joinpath os dirPath rel,
               enabled = False\<rparr>
      | _ \<Rightarrow> Inl TypeError)"

section \<open>ItemTableModel (qtapp/common/models/ItemTableModel.py)\<close>

text \<open>
  The list of items of the model and the \<^verbatim>\<open>itemAdded\<close> signals it has emitted.
  \<^verbatim>\<open>item in self.items\<close> compares modules by identity.
\<close>

record 'p ModuleListModel =
  items :: "'p Module list"
  itemAdded :: "'p Module list"

definition isPresent :: "'p ModuleListModel \<Rightarrow> 'p Module \<Rightarrow> bool" where
  "isPresent self item = (\<exists>x \<in> set (items self). addr x = addr item)"

definition appendItem :: "'p ModuleListModel \<Rightarrow> 'p Module \<Rightarrow> bool \<times> 'p ModuleListModel" where
  "appendItem self item =
     (if isPresent self item then (False, self)
      else (True, self\<lparr>items := items self @ [item], itemAdded := itemAdded self @ [item]\<rparr>))"

section \<open>Plugins (qtapp/plugins/__init__.py)\<close>

text \<open>
  \<^verbatim>\<open>NavigationBarButton(qtaIconStr, toolTip)\<close> and a widget object, known by its
  identity.
\<close>

record NavigationBarButton =
  qtaIconStr :: string
  toolTip :: string

datatype QWidget = QWidget nat

text \<open>
  A plugin object: a \<^verbatim>\<open>Registrable\<close> with \<^verbatim>\<open>_priority\<close> and \<^verbatim>\<open>_navBarBtn\<close>, and
  with what its \<^verbatim>\<open>widget()\<close> method and its \<^verbatim>\<open>registrables\<close> property return
  (subclasses override both).
\<close>

record BasePlugin = Registrable +
  priority :: int
  navBarBtn :: "NavigationBarButton option"
  widget :: "QWidget option"
  plugin_registrables :: "Registrable list"

text \<open>Truth value of an \<^verbatim>\<open>Optional[str]\<close>: \<^verbatim>\<open>None\<close> and the empty string are false.\<close>

definition truthy :: "string option \<Rightarrow> bool" where
  "truthy s = (case s of None \<Rightarrow> False | Some t \<Rightarrow> t \<noteq> [])"

text \<open>
  \<^verbatim>\<open>BasePlugin.__init__(priority, qtaIconStr, toolTip)\<close> on an object of class
  \<open>c\<close> whose class attribute \<^verbatim>\<open>id\<close> is \<open>i\<close>. The base class returns \<^verbatim>\<open>None\<close>
  from \<^verbatim>\<open>widget()\<close> and \<^verbatim>\<open>[]\<close> from \<^verbatim>\<open>registrables\<close>.
\<close>

definition BasePlugin_init ::
  "pyclass \<Rightarrow> string option \<Rightarrow> int \<Rightarrow> string option \<Rightarrow> string option \<Rightarrow> BasePlugin" where
  "BasePlugin_init c i prio icon tip =
     \<lparr>cls = c, ident = i,
      priority = prio,
      navBarBtn = (if truthy icon \<and> truthy tip
                   then Some \<lparr>qtaIconStr = the icon, toolTip = the tip\<rparr>
                   else None),
      widget = None,
      plugin_registrables = []\<rparr>"

definition navigationBarButton :: "BasePlugin \<Rightarrow> NavigationBarButton option" where
  "navigationBarButton self = navBarBtn self"

section \<open>PluginService (qtapp/plugins/services.py)\<close>

text \<open>
  The service owns the plugin registry and the module list model. \<open>fresh\<close> is
  the identity the next constructed \<^verbatim>\<open>Module\<close> object gets.
\<close>

record 'p PluginService =
  plugin_registry :: "BasePlugin BaseRegistry"
  moduleListModel :: "'p ModuleListModel"
  fresh :: nat

definition PluginService_init :: "'p PluginService" where
  "PluginService_init =
     \<lparr>plugin_registry = BaseRegistry_init BasePlugin_class,
      moduleListModel = \<lparr>items = [], itemAdded = []\<rparr>,
      fresh = 0\<rparr>"

definition plugins :: "'p PluginService \<Rightarrow> (string option \<times> BasePlugin) list" where
  "plugins self = registrables (plugin_registry self)"

definition addModule :: "'p PluginService \<Rightarrow> 'p Module \<Rightarrow> 'p PluginService" where
  "addModule self m = self\<lparr>moduleListModel := snd (appendItem (moduleListModel self) m)\<rparr>"

text \<open>
  \<^verbatim>\<open>addModulesFromRepository\<close>: the loop over \<^verbatim>\<open>repository.modulesMetadata\<close>, each
  round constructing a new \<^verbatim>\<open>Module\<close> object and handing it to \<^verbatim>\<open>addModule\<close>.
\<close>

fun addModules :: "'p os \<Rightarrow> 'p PluginService \<Rightarrow> 'p \<Rightarrow> ModuleMetadata list
                     \<Rightarrow> 'p PluginService outcome" where
  "addModules os self dirPath [] = (None, self)"
| "addModules os self dirPath (metadata # rest) =
     (case Module_init os (fresh self) dirPath metadata of
        Inl e \<Rightarrow> (Some e, self)
      | Inr m \<Rightarrow> addModules os (addModule (self\<lparr>fresh := Suc (fresh self)\<rparr>) m) dirPath rest)"

definition addModulesFromRepository :: "'p os \<Rightarrow> 'p PluginService \<Rightarrow> 'p Repository
                     \<Rightarrow> 'p PluginService outcome" where
  "addModulesFromRepository os self repository =
     addModules os self (repo_path repository) (modulesMetadata repository)"

definition addPlugin :: "'p PluginService \<Rightarrow> BasePlugin \<Rightarrow> 'p PluginService outcome" where
  "addPlugin self plugin =
     (case add (plugin_registry self) (Single plugin) of
        (e, r) \<Rightarrow> (e, self\<lparr>plugin_registry := r\<rparr>))"

fun addPlugins :: "'p PluginService \<Rightarrow> BasePlugin list \<Rightarrow> 'p PluginService outcome" where
  "addPlugins self [] = (None, self)"
| "addPlugins self (plugin # rest) =
     (case addPlugin self plugin of
        (Some e, self') \<Rightarrow> (Some e, self')
      | (None, self') \<Rightarrow> addPlugins self' rest)"

text \<open>
  \<^verbatim>\<open>addPluginsFromModule\<close> on the module object \<open>a\<close> of the list: the flag is set
  on the object, then the loader runs on the module's path and each plugin it
  returns is added. \<open>ctor\<close> instantiates a plugin class found by the loader.
\<close>

definition set_enabled :: "nat \<Rightarrow> 'p Module list \<Rightarrow> 'p Module list" where
  "set_enabled a ms = map (\<lambda>m. if addr m = a then m\<lparr>enabled := True\<rparr> else m) ms"

definition addPluginsFromModule ::
  "'p os \<Rightarrow> (unit \<Rightarrow> pyclass \<Rightarrow> error + BasePlugin) \<Rightarrow> 'p PluginService \<Rightarrow> 'p Module
     \<Rightarrow> 'p PluginService outcome" where
  "addPluginsFromModule os ctor self m =
     (let self' = self\<lparr>moduleListModel :=
                        (moduleListModel self)\<lparr>items := set_enabled (addr m)
                                                          (items (moduleListModel self))\<rparr>\<rparr>
      in case load ctor (node os (module_path m)) BasePlugin_class () of
           Inl e \<Rightarrow> (Some e, self')
         | Inr found \<Rightarrow> addPlugins self' found)"

text \<open>
  \<^verbatim>\<open>PluginService.load\<close>. The first loop reads the repository files, the second
  goes through the module objects of the list.
\<close>

fun load_repositories :: "'p os \<Rightarrow> 'p PluginService \<Rightarrow> 'p list \<Rightarrow> 'p PluginService outcome" where
  "load_repositories os self [] = (None, self)"
| "load_repositories os self (repositoryFile # rest) =
     (case loadFromFile os repositoryFile of
        Inl e \<Rightarrow> (Some e, self)
      | Inr repository \<Rightarrow>
          (case addModulesFromRepository os self repository of
             (Some e, self') \<Rightarrow> (Some e, self')
           | (None, self') \<Rightarrow> load_repositories os self' rest))"

fun load_modules :: "'p os \<Rightarrow> (unit \<Rightarrow> pyclass \<Rightarrow> error + BasePlugin) \<Rightarrow> 'p PluginService
                       \<Rightarrow> 'p Module list \<Rightarrow> string list \<Rightarrow> 'p PluginService outcome" where
  "load_modules os ctor self [] moduleIds = (None, self)"
| "load_modules os ctor self (m # rest) moduleIds =
     (if module_id m \<in> set (map PyStr moduleIds)
      then (case addPluginsFromModule os ctor self m of
              (Some e, self') \<Rightarrow> (Some e, self')
            | (None, self') \<Rightarrow> load_modules os ctor self' rest moduleIds)
      else load_modules os ctor self rest moduleIds)"

definition PluginService_load ::
  "'p os \<Rightarrow> (unit \<Rightarrow> pyclass \<Rightarrow> error + BasePlugin) \<Rightarrow> 'p PluginService \<Rightarrow> 'p list
     \<Rightarrow> string list \<Rightarrow> 'p PluginService outcome" where
  "PluginService_load os ctor self repositoryFiles moduleIds =
     (case load_repositories os self repositoryFiles of
        (Some e, self') \<Rightarrow> (Some e, self')
      | (None, self') \<Rightarrow>
          load_modules os ctor self' (items (moduleListModel self')) moduleIds)"

section \<open>DockService and SettingService\<close>

text \<open>
  Each service owns one registry. The routing below reads only the class and
  the id of what it registers, so the registries hold plain registrables.
\<close>

record DockService =
  dock_registry :: "Registrable BaseRegistry"

definition DockService_init :: DockService where
  "DockService_init = \<lparr>dock_registry = BaseRegistry_init BaseDock_class\<rparr>"



record SettingService =
  setting_registry :: "Registrable BaseRegistry"

definition SettingService_init :: SettingService where
  "SettingService_init = \<lparr>setting_registry = BaseRegistry_init BaseSetting_class\<rparr>"

definition addSetting :: "SettingService \<Rightarrow> Registrable \<Rightarrow> SettingService outcome" where
  "addSetting self setting =
     (case add (setting_registry self) (Single setting) of
        (e, r) \<Rightarrow> (e, self\<lparr>setting_registry := r\<rparr>))"


section \<open>The application shell (qtapp/app.py)\<close>

text \<open>
  Of the main window, the navigation bar (its buttons in the order they were
  added) and the stacked widget.
\<close>

record MainWindow =
  navBar :: "NavigationBarButton list"
  stack :: "QWidget list"

definition MainWindow_init :: MainWindow where
  "MainWindow_init = \<lparr>navBar = [], stack = []\<rparr>"

text \<open>\<^verbatim>\<open>_MainWindow.addPlugin\<close>.\<close>

definition MainWindow_addPlugin :: "MainWindow \<Rightarrow> BasePlugin \<Rightarrow> MainWindow" where
  "MainWindow_addPlugin self plugin =
     (let w = widget plugin; btn = navigationBarButton plugin
      in if w = None \<or> btn = None then self
         else self\<lparr>stack := stack self @ [the w], navBar := navBar self @ [the btn]\<rparr>)"

record 'p BaseApplication =
  pluginService :: "'p PluginService"
  settingService :: SettingService
  dockService :: DockService
  mainWindow :: MainWindow

text \<open>
  \<^verbatim>\<open>EnabledExtensionsSetting\<close> (qtapp/plugins/settings.py), which
  \<^verbatim>\<open>BaseApplication.__init__\<close> adds to the new setting service.
\<close>

definition EnabledExtensionsSetting :: Registrable where
  "EnabledExtensionsSetting =
     \<lparr>cls = PyClass 5 ''EnabledExtensionsSetting'' [BaseSetting_class],
      ident = Some ''application/enabledExtensions''\<rparr>"

definition BaseApplication_init :: "'p BaseApplication" where
  "BaseApplication_init =
     \<lparr>pluginService = PluginService_init,
      settingService = snd (addSetting SettingService_init EnabledExtensionsSetting),
      dockService = DockService_init,
      mainWindow = MainWindow_init\<rparr>"




text \<open>
  The start of \<^verbatim>\<open>BaseApplication.run\<close>: the plugins of the registry, in dict
  order, are sorted by priority (\<^verbatim>\<open>list.sort\<close> is stable, as \<^const>\<open>sort_key\<close>)
  and given to the main window one by one.
\<close>

definition run_plugins :: "'p BaseApplication \<Rightarrow> 'p BaseApplication" where
  "run_plugins self =
     (let ps = sort_key priority (map snd (plugins (pluginService self)))
      in self\<lparr>mainWindow := fold (\<lambda>plugin w. MainWindow_addPlugin w plugin) ps (mainWindow self)\<rparr>)"

text \<open>A plugin gets a navigation entry when it has both a widget and a button.\<close>

definition has_entry :: "BasePlugin \<Rightarrow> bool" where
  "has_entry plugin \<longleftrightarrow> widget plugin \<noteq> None \<and> navigationBarButton plugin \<noteq> None"

text \<open>
  Subclass instances used to evaluate the shell: three plugins with a widget,
  a button and the priorities 30, 10 and 20; a plugin without icon that
  contributes a dock, a setting and a registrable of neither kind.
\<close>

definition plugin30 :: BasePlugin where
  "plugin30 = (BasePlugin_init (PyClass 11 ''P30'' [BasePlugin_class]) (Some ''p30'') 30
                 (Some ''ph.a'') (Some ''thirty''))\<lparr>widget := Some (QWidget 1)\<rparr>"

definition plugin10 :: BasePlugin where
  "plugin10 = (BasePlugin_init (PyClass 12 ''P10'' [BasePlugin_class]) (Some ''p10'') 10
                 (Some ''ph.b'') (Some ''ten''))\<lparr>widget := Some (QWidget 2)\<rparr>"

definition plugin20 :: BasePlugin where
  "plugin20 = (BasePlugin_init (PyClass 13 ''P20'' [BasePlugin_class]) (Some ''p20'') 20
                 (Some ''ph.c'') (Some ''twenty''))\<lparr>widget := Some (QWidget 3)\<rparr>"

definition a_dock :: Registrable where
  "a_dock = \<lparr>cls = PyClass 20 ''LogDock'' [BaseDock_class], ident = Some ''log''\<rparr>"

definition a_setting :: Registrable where
  "a_setting = \<lparr>cls = PyClass 21 ''ThemeSetting'' [BaseSetting_class], ident = Some ''theme''\<rparr>"

definition an_other :: Registrable where
  "an_other = \<lparr>cls = PyClass 22 ''Helper'' [Registrable_class], ident = Some ''helper''\<rparr>"

definition headless_plugin :: BasePlugin where
  "headless_plugin = (BasePlugin_init (PyClass 14 ''Headless'' [BasePlugin_class])
                        (Some ''headless'') 10 None (Some ''tip''))
                       \<lparr>plugin_registrables := [a_dock, an_other, a_setting]\<rparr>"

text \<open>An application in which the three plugins were added in the order 30, 10, 20.\<close>

definition app3 :: "nat BaseApplication" where
  "app3 = BaseApplication_init\<lparr>pluginService :=
            snd (addPlugins PluginService_init [plugin30, plugin10, plugin20])\<rparr>"



section \<open>Manifest entries and module identities\<close>

text \<open>
  A JSON object that represents a \<^verbatim>\<open>ModuleMetadata\<close> in a manifest: its keys are
  field names of the dataclass, the three required fields carry the metadata's
  values, and \<^verbatim>\<open>description\<close> carries the metadata's description or, when that
  is \<^verbatim>\<open>None\<close>, may be left out.
\<close>

definition represents :: "pyvalue \<Rightarrow> ModuleMetadata \<Rightarrow> bool" where
  "represents obj md =
     (case obj of
        PyDict kw \<Rightarrow>
          set (map fst kw) \<subseteq> set field_names
          \<and> map_of kw ''id'' = Some (md_id md)
          \<and> map_of kw ''relativePath'' = Some (md_relativePath md)
          \<and> map_of kw ''displayName'' = Some (md_displayName md)
          \<and> (map_of kw ''description'' = Some (md_description md)
               \<or> (map_of kw ''description'' = None \<and> md_description md = PyNone))
      | _ \<Rightarrow> False)"

text \<open>A manifest entry that lacks one of the fields without default.\<close>

definition lacks_required :: "pyvalue \<Rightarrow> bool" where
  "lacks_required obj =
     (case obj of
        PyDict kw \<Rightarrow> \<exists>f \<in> set [''id'', ''relativePath'', ''displayName'']. f \<notin> set (map fst kw)
      | _ \<Rightarrow> False)"

fun is_str :: "pyvalue \<Rightarrow> bool" where
  "is_str (PyStr s) = True"
| "is_str v = False"

fun str_of :: "pyvalue \<Rightarrow> string" where
  "str_of (PyStr s) = s"
| "str_of v = []"

text \<open>
  Every module object in the list was constructed before the next identity to
  be handed out.
\<close>

definition modules_allocated :: "'p PluginService \<Rightarrow> bool" where
  "modules_allocated self \<longleftrightarrow> (\<forall>m \<in> set (items (moduleListModel self)). addr m < fresh self)"

text \<open>
  A small file system to evaluate the manifest reader on: paths are lists of
  names; \<^verbatim>\<open>/repo/ok.json\<close> lists two modules that share an id,
  \<^verbatim>\<open>/repo/bad.json\<close> has a well-formed entry and one without \<^verbatim>\<open>displayName\<close>,
  \<^verbatim>\<open>/repo/broken.json\<close> is no JSON.
\<close>

definition entry_a :: pyvalue where
  "entry_a = PyDict [(''id'', PyStr ''a''), (''relativePath'', PyStr ''mods/a''),
                     (''displayName'', PyStr ''A''), (''description'', PyStr ''first'')]"

definition entry_a2 :: pyvalue where
  "entry_a2 = PyDict [(''id'', PyStr ''a''), (''relativePath'', PyStr ''mods/a2''),
                      (''displayName'', PyStr ''A again'')]"

definition entry_bad :: pyvalue where
  "entry_bad = PyDict [(''id'', PyStr ''b''), (''relativePath'', PyStr ''mods/b'')]"

definition metadata_a :: ModuleMetadata where
  "metadata_a = \<lparr>md_id = PyStr ''a'', md_relativePath = PyStr ''mods/a'',
                  md_displayName = PyStr ''A'', md_description = PyStr ''first''\<rparr>"

definition metadata_a2 :: ModuleMetadata where
  "metadata_a2 = \<lparr>md_id = PyStr ''a'', md_relativePath = PyStr ''mods/a2'',
                   md_displayName = PyStr ''A again'', md_description = PyNone\<rparr>"

definition demo_os :: "string list os" where
  "demo_os =
     \<lparr>resolve = (\<lambda>p. p),
      parent = butlast,
      joinpath = (\<lambda>p s. p @ [s]),
      read_json = (\<lambda>p. if p = [''repo'', ''ok.json''] then Json (PyList [entry_a, entry_a2])
                         else if p = [''repo'', ''bad.json''] then Json (PyList [entry_a, entry_bad])
                         else if p = [''repo'', ''broken.json''] then NotJson
                         else NoFile),
      node = (\<lambda>p. File (last p) (Inl FileNotFoundError))\<rparr>"

text \<open>A plugin constructor that builds a plugin without button for any class.\<close>

definition construct_plugin :: "unit \<Rightarrow> pyclass \<Rightarrow> error + BasePlugin" where
  "construct_plugin u c = Inr (BasePlugin_init c (Some (cname c)) 10 None None)"
section \<open>Properties of the registry\<close>

lemma update_absent: "map_of al k = None \<Longrightarrow> AList.update k v al = al @ [(k, v)]"
  by (induction al) (auto split: if_splits)

lemma add_Single_absent:
  "map_of (registrables self) (ident r) = None \<Longrightarrow>
   add self (Single r) = (None, self\<lparr>registrables := registrables self @ [(ident r, r)],
                                    emitted := emitted self @ [registrableAdded r]\<rparr>)"
  by (simp add: update_absent)

lemma add_Single_present:
  "map_of (registrables self) (ident r) \<noteq> None \<Longrightarrow>
   add self (Single r) = (Some RegistrableAlreadyExistsError, self)"
  by simp

lemma keyed_by_id_add: "keyed_by_id self \<Longrightarrow> keyed_by_id (snd (add self a))"
proof (induction self a rule: add.induct)
  case (1 self)
  then show ?case by simp
next
  case (2 self r rs)
  then show ?case by (auto split: prod.splits option.splits)
next
  case (3 self r)
  show ?case
  proof (cases "map_of (registrables self) (ident r)")
    case None
    then have "ident r \<notin> fst ` set (registrables self)"
      by (simp add: map_of_eq_None_iff)
    with 3 None show ?thesis
      by (auto simp: keyed_by_id_def update_absent)
  next
    case (Some a)
    with 3 show ?thesis by simp
  qed
qed

lemma keyed_by_id_add_calls: "keyed_by_id self \<Longrightarrow> keyed_by_id (add_calls self calls)"
  unfolding add_calls_def
  by (induction calls arbitrary: self) (auto simp: keyed_by_id_add)

lemma keyed_by_id_init: "keyed_by_id (BaseRegistry_init c)"
  by (simp add: keyed_by_id_def BaseRegistry_init_def)

lemma distinct_keys_filter_le1:
  "distinct (map fst al) \<Longrightarrow> length (filter (\<lambda>p. fst p = k) al) \<le> 1"
  by (induction al) (auto simp: filter_empty_conv image_iff)

lemma keyed_by_id_at_most_one:
  assumes "keyed_by_id self"
  shows "length (filter (\<lambda>p. ident (snd p) = i) (registrables self)) \<le> 1"
proof -
  have "filter (\<lambda>p. ident (snd p) = i) (registrables self)
        = filter (\<lambda>p. fst p = i) (registrables self)"
    using assms by (intro filter_cong) (auto simp: keyed_by_id_def)
  then show ?thesis
    using assms distinct_keys_filter_le1 [of "registrables self" i]
    by (simp add: keyed_by_id_def)
qed

text \<open>
  Claim C1. \<^verbatim>\<open>add(item)\<close> raises \<^verbatim>\<open>RegistrableAlreadyExistsError\<close> (the
  duplicate-id error) when an item is already stored under the item's id, and
  then leaves the registry as it was. Otherwise it stores the item under its id
  at the end of the dict and has emitted \<^verbatim>\<open>registrableAdded(item)\<close> when it
  returns. A registry created empty and driven by any sequence of \<^verbatim>\<open>add\<close>
  calls (single items or lists, raising or not) holds at most one item per id.
\<close>

theorem add_unique_ids:
  fixes self :: "('m Registrable_scheme) BaseRegistry"
  shows "(map_of (registrables self) (ident r) \<noteq> None \<longrightarrow>
       add self (Single r) = (Some RegistrableAlreadyExistsError, self))
   \<and> (map_of (registrables self) (ident r) = None \<longrightarrow>
       (\<exists>self'. add self (Single r) = (None, self')
          \<and> registrables self' = registrables self @ [(ident r, r)]
          \<and> registrable self' (ident r) = Some r
          \<and> emitted self' = emitted self @ [registrableAdded r]))
   \<and> length (filter (\<lambda>p. ident (snd p) = i)
          (registrables (add_calls (BaseRegistry_init c) calls))) \<le> 1"
proof (intro conjI impI)
  assume "map_of (registrables self) (ident r) \<noteq> None"
  then show "add self (Single r) = (Some RegistrableAlreadyExistsError, self)"
    by (rule add_Single_present)
next
  assume "map_of (registrables self) (ident r) = None"
  then show "\<exists>self'. add self (Single r) = (None, self')
          \<and> registrables self' = registrables self @ [(ident r, r)]
          \<and> registrable self' (ident r) = Some r
          \<and> emitted self' = emitted self @ [registrableAdded r]"
    by (simp add: update_absent registrable_def map_add_def)
next
  show "length (filter (\<lambda>p. ident (snd p) = i)
          (registrables (add_calls (BaseRegistry_init c) calls))) \<le> 1"
    by (rule keyed_by_id_at_most_one [OF keyed_by_id_add_calls [OF keyed_by_id_init]])
qed


lemma add_Several_append:
  "add self (Several (xs @ ys)) =
     (case add self (Several xs) of
        (Some e, s) \<Rightarrow> (Some e, s)
      | (None, s) \<Rightarrow> add s (Several ys))"
  by (induction xs arbitrary: self) (auto split: prod.splits option.splits if_splits)

lemma add_Several_success:
  "add self (Several rs) = (None, s) \<Longrightarrow>
     registrables s = registrables self @ map (\<lambda>r. (ident r, r)) rs \<and>
     emitted s = emitted self @ map registrableAdded rs"
proof (induction rs arbitrary: self)
  case Nil
  then show ?case by simp
next
  case (Cons r rs)
  show ?case
  proof (cases "map_of (registrables self) (ident r)")
    case None
    let ?mid = "self\<lparr>registrables := registrables self @ [(ident r, r)],
                      emitted := emitted self @ [registrableAdded r]\<rparr>"
    from None Cons.prems have "add ?mid (Several rs) = (None, s)"
      by (simp add: update_absent)
    from Cons.IH [OF this] show ?thesis by simp
  next
    case (Some a)
    with Cons.prems show ?thesis by simp
  qed
qed

lemma add_Single_error:
  "add self (Single r) = (Some e, s') \<Longrightarrow> e = RegistrableAlreadyExistsError \<and> s' = self"
  by (auto split: if_splits)

text \<open>
  Claim C8. \<^verbatim>\<open>add(list)\<close> adds the items one after the other. When items
  \<open>0..k-1\<close> were added and adding item \<open>k\<close> raises, the call raises that
  error and the registry holds the old entries followed by items \<open>0..k-1\<close>,
  each with its \<^verbatim>\<open>registrableAdded\<close> signal emitted: nothing is rolled back and
  no item from \<open>k\<close> on is added.
\<close>

theorem add_list_no_rollback:
  fixes self :: "('m Registrable_scheme) BaseRegistry"
  assumes "k < length rs"
    and "add self (Several (take k rs)) = (None, s)"
    and "add s (Single (rs ! k)) = (Some e, s')"
  shows "add self (Several rs) = (Some RegistrableAlreadyExistsError, s)
       \<and> registrables s = registrables self @ map (\<lambda>r. (ident r, r)) (take k rs)
       \<and> emitted s = emitted self @ map registrableAdded (take k rs)"
proof -
  have split: "rs = take k rs @ (rs ! k) # drop (Suc k) rs"
    using assms(1) by (rule id_take_nth_drop)
  from assms(3) have fail: "add s (Single (rs ! k)) = (Some RegistrableAlreadyExistsError, s)"
    using add_Single_error by blast
  have "add self (Several (take k rs @ (rs ! k) # drop (Suc k) rs))
          = (Some RegistrableAlreadyExistsError, s)"
    unfolding add_Several_append using assms(2) fail by simp
  with split have "add self (Several rs) = (Some RegistrableAlreadyExistsError, s)"
    by simp
  with add_Several_success [OF assms(2)] show ?thesis by simp
qed

theorem add_list_no_rollback_witness:
  "add (BaseRegistry_init Registrable_class) (Several [reg_a, reg_b, reg_a, reg_c])
     = (Some RegistrableAlreadyExistsError,
        \<lparr>registrables = [(Some ''a'', reg_a), (Some ''b'', reg_b)],
         registry_class = Registrable_class,
         emitted = [registrableAdded reg_a, registrableAdded reg_b]\<rparr>)"
  using add_list_no_rollback [of 2 "[reg_a, reg_b, reg_a, reg_c]"
      "BaseRegistry_init Registrable_class"
      "\<lparr>registrables = [(Some ''a'', reg_a), (Some ''b'', reg_b)],
         registry_class = Registrable_class,
         emitted = [registrableAdded reg_a, registrableAdded reg_b]\<rparr>"
      RegistrableAlreadyExistsError
      "\<lparr>registrables = [(Some ''a'', reg_a), (Some ''b'', reg_b)],
         registry_class = Registrable_class,
         emitted = [registrableAdded reg_a, registrableAdded reg_b]\<rparr>"]
  by (simp add: BaseRegistry_init_def reg_a_def reg_b_def reg_c_def)

theorem add_unique_ids_witness:
  "add (BaseRegistry_init Registrable_class) (Single reg_a)
     = (None, \<lparr>registrables = [(Some ''a'', reg_a)], registry_class = Registrable_class,
               emitted = [registrableAdded reg_a]\<rparr>)
   \<and> add \<lparr>registrables = [(Some ''a'', reg_a)], registry_class = Registrable_class,
               emitted = [registrableAdded reg_a]\<rparr> (Single reg_a)
     = (Some RegistrableAlreadyExistsError,
        \<lparr>registrables = [(Some ''a'', reg_a)], registry_class = Registrable_class,
               emitted = [registrableAdded reg_a]\<rparr>)
   \<and> length (filter (\<lambda>p. ident (snd p) = Some ''a'')
         (registrables (add_calls (BaseRegistry_init Registrable_class)
             [Single reg_a, Single reg_a, Several [reg_b, reg_a]]))) = 1"
  using add_unique_ids [of "BaseRegistry_init Registrable_class" reg_a "Some ''a''"
       Registrable_class "[Single reg_a, Single reg_a, Several [reg_b, reg_a]]"]
    add_unique_ids [of "\<lparr>registrables = [(Some ''a'', reg_a)], registry_class = Registrable_class,
               emitted = [registrableAdded reg_a]\<rparr>" reg_a "Some ''a''"
       Registrable_class "[]"]
  by (simp add: BaseRegistry_init_def reg_a_def reg_b_def add_calls_def)


section \<open>Properties of the background worker\<close>

lemma run_returns:
  "fn self (args self) = Inr v \<Longrightarrow> run self = [result_emit v, finished_emit]"
  by (simp add: run_def)

lemma run_raises:
  "fn self (args self) = Inl x \<Longrightarrow>
   run self = [print_exc (format_exc x),
               error_emit (excType x, excValue x, format_exc x), finished_emit]"
  by (simp add: run_def)

text \<open>
  Claim C3. One execution of \<^verbatim>\<open>Worker.run\<close> emits exactly one terminal signal:
  \<^verbatim>\<open>result(value)\<close> when the function returns \<open>value\<close>, \<^verbatim>\<open>error(...)\<close> when it
  raises, never both; and in both cases \<^verbatim>\<open>finished()\<close> is emitted exactly
  once, as the last signal, after the terminal one.
\<close>

theorem run_terminal_contract:
  "length (filter (\<lambda>e. is_result e \<or> is_error e) (run self)) = 1
   \<and> length (filter is_finished (run self)) = 1
   \<and> (\<forall>v. fn self (args self) = Inr v \<longrightarrow>
         signals (run self) = [result_emit v, finished_emit])
   \<and> (\<forall>x. fn self (args self) = Inl x \<longrightarrow>
         signals (run self)
           = [error_emit (excType x, excValue x, format_exc x), finished_emit])"
proof (cases "fn self (args self)")
  case (Inl x)
  then show ?thesis by (simp add: run_raises signals_def)
next
  case (Inr v)
  then show ?thesis by (simp add: run_returns signals_def)
qed

theorem run_terminal_contract_witness:
  "signals (run task_ok) = [result_emit 42, finished_emit]
   \<and> signals (run task_fail)
       = [error_emit (''ValueError'', ''bad'', ''Traceback''), finished_emit]"
  using run_terminal_contract [of task_ok] run_terminal_contract [of task_fail]
  by (simp add: task_ok_def task_fail_def Worker_init_def)

section \<open>Properties of the loader\<close>

lemma implementing_Cons_Type:
  "implementing class_arg ((n, Type c) # bindings) =
     (if issubclass c class_arg \<and> c \<noteq> class_arg then [c] else []) @ implementing class_arg bindings"
  by (simp add: implementing_def)

lemma implementing_Cons_NotAType:
  "implementing class_arg ((n, NotAType) # bindings) = implementing class_arg bindings"
  by (simp add: implementing_def)

lemma instantiate_success:
  assumes "\<forall>c \<in> set (implementing class_arg ns). \<exists>x. ctor c = Inr x"
  shows "\<exists>xs. instantiate ctor class_arg ns = Inr xs
            \<and> map Inr xs = map ctor (implementing class_arg ns)"
  using assms
proof (induction ctor class_arg ns rule: instantiate.induct)
  case (1 ctor class_arg)
  then show ?case by (simp add: implementing_def)
next
  case (2 ctor class_arg n bindings)
  then show ?case by (simp add: implementing_Cons_NotAType)
next
  case (3 ctor class_arg n obj bindings)
  show ?case
  proof (cases "issubclass obj class_arg \<and> obj \<noteq> class_arg")
    case True
    then have impl: "implementing class_arg ((n, Type obj) # bindings)
                      = obj # implementing class_arg bindings"
      by (simp add: implementing_Cons_Type)
    with "3.prems" obtain r where r: "ctor obj = Inr r" by auto
    from "3.prems" impl
    have "\<forall>c \<in> set (implementing class_arg bindings). \<exists>x. ctor c = Inr x" by simp
    from "3.IH"(1) [OF True r this] obtain rs where
      rs: "instantiate ctor class_arg bindings = Inr rs"
      "map Inr rs = map ctor (implementing class_arg bindings)" by blast
    have "instantiate ctor class_arg ((n, Type obj) # bindings) = Inr (r # rs)"
      using True r rs(1) by simp
    moreover have "map Inr (r # rs) = map ctor (implementing class_arg ((n, Type obj) # bindings))"
      using impl r rs(2) by simp
    ultimately show ?thesis by blast
  next
    case False
    then have impl: "implementing class_arg ((n, Type obj) # bindings)
                      = implementing class_arg bindings"
      by (simp add: implementing_Cons_Type)
    with "3.prems"
    have "\<forall>c \<in> set (implementing class_arg bindings). \<exists>x. ctor c = Inr x" by simp
    from "3.IH"(2) [OF False this] obtain rs where
      rs: "instantiate ctor class_arg bindings = Inr rs"
      "map Inr rs = map ctor (implementing class_arg bindings)" by blast
    have "instantiate ctor class_arg ((n, Type obj) # bindings) = Inr rs"
      using False rs(1) by auto
    with impl rs(2) show ?thesis by simp
  qed
qed

lemma implementing_not_base: "c \<in> set (implementing class_arg ns) \<Longrightarrow> c \<noteq> class_arg \<and> issubclass c class_arg \<and> Type c \<in> snd ` set ns"
  by (induction ns) (auto simp: implementing_def split: pyobject.splits if_splits)


text \<open>
  Claim C2. A directory holds one loadable file (a name ending in \<^verbatim>\<open>.py\<close> that
  does not start with a dot) whose module binds, at top level, classes among
  which may be the requested class itself. When every class that is a subclass
  of the requested class, and not that class, can be instantiated with the
  extra arguments, \<^verbatim>\<open>load\<close> returns exactly the instances the constructor
  gives for these classes with the arguments passed on unchanged, one per
  binding and in binding order, and none of them has the requested class as
  its type.
\<close>

theorem load_excludes_base:
  fixes ctor :: "'args \<Rightarrow> pyclass \<Rightarrow> error + 'm Registrable_scheme"
  assumes "isValidModule name (suffix name)"
    and "\<forall>c \<in> set (implementing class_arg module_bindings). \<exists>x. ctor argv c = Inr x"
    and "\<forall>c x. ctor argv c = Inr x \<longrightarrow> cls x = c"
  shows "\<exists>xs. load ctor (Dir d [File name (Inr module_bindings)]) class_arg argv = Inr xs
           \<and> map Inr xs = map (ctor argv) (implementing class_arg module_bindings)
           \<and> map cls xs = implementing class_arg module_bindings
           \<and> (\<forall>x \<in> set xs. cls x \<noteq> class_arg)"
proof -
  from instantiate_success [OF assms(2)] obtain xs where
    inst: "instantiate (ctor argv) class_arg module_bindings = Inr xs"
    and each: "map Inr xs = map (ctor argv) (implementing class_arg module_bindings)"
    by blast
  have loaded: "load ctor (Dir d [File name (Inr module_bindings)]) class_arg argv = Inr xs"
    using assms(1) inst by (simp add: loadRegistrablesFromModule_def)
  have len: "length xs = length (implementing class_arg module_bindings)"
    using arg_cong [OF each, of length] by simp
  have types: "map cls xs = implementing class_arg module_bindings"
  proof (rule nth_equalityI)
    show "length (map cls xs) = length (implementing class_arg module_bindings)"
      using len by simp
  next
    fix i assume "i < length (map cls xs)"
    then have i: "i < length xs" by simp
    then have "map Inr xs ! i = map (ctor argv) (implementing class_arg module_bindings) ! i"
      using each by simp
    then have "ctor argv (implementing class_arg module_bindings ! i) = Inr (xs ! i)"
      using i len by simp
    then have "cls (xs ! i) = implementing class_arg module_bindings ! i"
      using assms(3) by blast
    then show "map cls xs ! i = implementing class_arg module_bindings ! i"
      using i by simp
  qed
  have "\<forall>x \<in> set xs. cls x \<noteq> class_arg"
  proof
    fix x assume "x \<in> set xs"
    then have "cls x \<in> set (map cls xs)" by simp
    then have "cls x \<in> set (implementing class_arg module_bindings)" using types by simp
    then show "cls x \<noteq> class_arg" by (simp add: implementing_not_base)
  qed
  with loaded each types show ?thesis by (intro exI [of _ xs]) simp
qed

theorem load_excludes_base_witness:
  "load construct_any (Dir ''demo'' [File ''plugin.py'' (Inr demo_items)]) BasePlugin_class ()
     = Inr [\<lparr>cls = DemoPlugin_class, ident = Some ''DemoPlugin''\<rparr>]"
proof -
  have valid: "isValidModule ''plugin.py'' (suffix ''plugin.py'')"
    by (simp add: isValidModule_def suffix_def startswith_def)
  have impl: "implementing BasePlugin_class demo_items = [DemoPlugin_class]"
    by (simp add: implementing_def demo_items_def DemoPlugin_class_def BasePlugin_class_def
        Registrable_class_def QObject_def)
  have ok: "\<forall>c \<in> set (implementing BasePlugin_class demo_items). \<exists>x. construct_any () c = Inr x"
    by (simp add: construct_any_def)
  have typed: "\<forall>c x. construct_any () c = Inr x \<longrightarrow> cls x = c"
    by (auto simp: construct_any_def)
  from load_excludes_base [where ctor = construct_any and argv = "()" and name = "''plugin.py''"
      and class_arg = BasePlugin_class and module_bindings = demo_items and d = "''demo''",
      OF valid ok typed]
  obtain xs where
    loaded: "load construct_any (Dir ''demo'' [File ''plugin.py'' (Inr demo_items)]) BasePlugin_class ()
              = Inr xs"
    and each: "map Inr xs = map (construct_any ()) (implementing BasePlugin_class demo_items)"
    by blast
  from each impl
  have "map (Inr :: Registrable \<Rightarrow> error + Registrable) xs
          = map Inr [\<lparr>cls = DemoPlugin_class, ident = Some ''DemoPlugin''\<rparr>]"
    by (simp add: construct_any_def DemoPlugin_class_def)
  then have "xs = [\<lparr>cls = DemoPlugin_class, ident = Some ''DemoPlugin''\<rparr>]"
    by (auto simp: map_eq_Cons_conv)
  with loaded show ?thesis by simp
qed


section \<open>Properties of the application shell\<close>

lemma navBar_fold_addPlugin:
  "navBar (fold (\<lambda>plugin w. MainWindow_addPlugin w plugin) ps w)
     = navBar w @ map (the \<circ> navigationBarButton) (filter has_entry ps)"
  by (induction ps arbitrary: w) (auto simp: MainWindow_addPlugin_def has_entry_def Let_def)

lemma navBar_run_plugins:
  "navBar (mainWindow (run_plugins self))
     = navBar (mainWindow self)
       @ map (the \<circ> navigationBarButton)
           (filter has_entry (sort_key priority (map snd (plugins (pluginService self)))))"
  by (simp add: run_plugins_def Let_def navBar_fold_addPlugin)

lemma sorted_shown: "sorted (map priority (filter has_entry (sort_key priority ps)))"
  by (rule sorted_filter) (rule sorted_sort_key)

lemma stable_shown:
  "filter (\<lambda>p. priority p = k) (filter has_entry (sort_key priority ps))
     = filter (\<lambda>p. priority p = k) (filter has_entry ps)"
proof -
  have "filter (\<lambda>p. priority p = k) (filter has_entry (sort_key priority ps))
          = filter has_entry (filter (\<lambda>p. priority p = k) (sort_key priority ps))"
    by (simp add: conj_commute)
  also have "\<dots> = filter has_entry (filter (\<lambda>p. priority p = k) ps)"
    by (simp only: sort_key_stable)
  also have "\<dots> = filter (\<lambda>p. priority p = k) (filter has_entry ps)"
    by (simp add: conj_commute)
  finally show ?thesis .
qed

lemma sort_30_10_20:
  assumes "priority p1 = 30" "priority p2 = 10" "priority p3 = 20"
  shows "sort_key priority [p1, p2, p3] = [p2, p3, p1]"
  using assms by simp

text \<open>
  Claim C5. At startup \<^verbatim>\<open>run\<close> adds to the navigation bar the buttons of the
  registered plugins that have a navigation entry, ordered by ascending
  priority; plugins of equal priority keep the order in which the registry
  holds them (insertion order). In particular, three plugins with navigation
  entries registered in the order of priorities 30, 10, 20 appear in the order
  10, 20, 30.
\<close>

theorem run_plugins_priority_order:
  fixes self :: "'p BaseApplication"
  shows "(\<exists>shown.
            navBar (mainWindow (run_plugins self))
              = navBar (mainWindow self) @ map (the \<circ> navigationBarButton) shown
          \<and> set shown = {p \<in> snd ` set (plugins (pluginService self)). has_entry p}
          \<and> sorted (map priority shown)
          \<and> (\<forall>k. filter (\<lambda>p. priority p = k) shown
                  = filter (\<lambda>p. priority p = k)
                      (filter has_entry (map snd (plugins (pluginService self))))))
       \<and> (\<forall>p1 p2 p3.
            map snd (plugins (pluginService self)) = [p1, p2, p3]
            \<and> priority p1 = 30 \<and> priority p2 = 10 \<and> priority p3 = 20
            \<and> has_entry p1 \<and> has_entry p2 \<and> has_entry p3
            \<longrightarrow> navBar (mainWindow (run_plugins self))
                  = navBar (mainWindow self)
                    @ [the (navigationBarButton p2), the (navigationBarButton p3),
                       the (navigationBarButton p1)])"
proof (intro conjI allI impI)
  let ?shown = "filter has_entry (sort_key priority (map snd (plugins (pluginService self))))"
  have "navBar (mainWindow (run_plugins self))
          = navBar (mainWindow self) @ map (the \<circ> navigationBarButton) ?shown"
    by (rule navBar_run_plugins)
  moreover have "set ?shown = {p \<in> snd ` set (plugins (pluginService self)). has_entry p}"
    by auto
  moreover have "sorted (map priority ?shown)"
    by (rule sorted_shown)
  moreover have "\<forall>k. filter (\<lambda>p. priority p = k) ?shown
                  = filter (\<lambda>p. priority p = k)
                      (filter has_entry (map snd (plugins (pluginService self))))"
    using stable_shown by blast
  ultimately show "\<exists>shown.
            navBar (mainWindow (run_plugins self))
              = navBar (mainWindow self) @ map (the \<circ> navigationBarButton) shown
          \<and> set shown = {p \<in> snd ` set (plugins (pluginService self)). has_entry p}
          \<and> sorted (map priority shown)
          \<and> (\<forall>k. filter (\<lambda>p. priority p = k) shown
                  = filter (\<lambda>p. priority p = k)
                      (filter has_entry (map snd (plugins (pluginService self)))))"
    by (intro exI [of _ ?shown] conjI)
next
  fix p1 p2 p3 :: BasePlugin
  assume a: "map snd (plugins (pluginService self)) = [p1, p2, p3]
            \<and> priority p1 = 30 \<and> priority p2 = 10 \<and> priority p3 = 20
            \<and> has_entry p1 \<and> has_entry p2 \<and> has_entry p3"
  then have "sort_key priority (map snd (plugins (pluginService self))) = [p2, p3, p1]"
    using sort_30_10_20 [of p1 p2 p3] by simp
  with a show "navBar (mainWindow (run_plugins self))
                  = navBar (mainWindow self)
                    @ [the (navigationBarButton p2), the (navigationBarButton p3),
                       the (navigationBarButton p1)]"
    by (simp add: navBar_run_plugins)
qed

theorem run_plugins_priority_order_witness:
  "navBar (mainWindow (run_plugins app3))
     = [\<lparr>qtaIconStr = ''ph.b'', toolTip = ''ten''\<rparr>,
        \<lparr>qtaIconStr = ''ph.c'', toolTip = ''twenty''\<rparr>,
        \<lparr>qtaIconStr = ''ph.a'', toolTip = ''thirty''\<rparr>]"
proof -
  have regs: "map snd (plugins (pluginService app3)) = [plugin30, plugin10, plugin20]"
    by (simp add: app3_def addPlugin_def PluginService_init_def BaseRegistry_init_def
        plugins_def plugin30_def plugin10_def plugin20_def BasePlugin_init_def)
  have prios: "priority plugin30 = 30" "priority plugin10 = 10" "priority plugin20 = 20"
    by (simp_all add: plugin30_def plugin10_def plugin20_def BasePlugin_init_def)
  have entries: "has_entry plugin30" "has_entry plugin10" "has_entry plugin20"
    by (simp_all add: has_entry_def navigationBarButton_def plugin30_def plugin10_def
        plugin20_def BasePlugin_init_def truthy_def)
  have start: "navBar (mainWindow app3) = []"
    by (simp add: app3_def BaseApplication_init_def MainWindow_init_def)
  have "navBar (mainWindow (run_plugins app3))
          = navBar (mainWindow app3)
            @ [the (navigationBarButton plugin10), the (navigationBarButton plugin20),
               the (navigationBarButton plugin30)]"
    using run_plugins_priority_order [of app3, THEN conjunct2, rule_format,
        of plugin30 plugin10 plugin20] regs prios entries
    by simp
  then show ?thesis
    by (simp add: start navigationBarButton_def plugin30_def plugin10_def plugin20_def
        BasePlugin_init_def truthy_def)
qed

text \<open>
  Claim C10. A plugin built by \<^verbatim>\<open>BasePlugin.__init__\<close> has a navigation-bar
  button exactly when both the icon string and the tooltip are given and
  non-empty. Without one of them \<^verbatim>\<open>navigationBarButton()\<close> is \<^verbatim>\<open>None\<close> and the
  main window adds no navigation entry for the plugin, whatever widget and
  registrables a subclass provides; the plugin service still registers the
  plugin under its id and the registry emits \<^verbatim>\<open>registrableAdded\<close> for it, as for
  any plugin.
\<close>

theorem navigation_button_iff:
  fixes svc :: "'p PluginService"
  shows
  "(navigationBarButton (BasePlugin_init c i prio icon tip) \<noteq> None \<longleftrightarrow> truthy icon \<and> truthy tip)
   \<and> (\<not> (truthy icon \<and> truthy tip) \<longrightarrow>
        navigationBarButton (BasePlugin_init c i prio icon tip) = None
        \<and> MainWindow_addPlugin w
             ((BasePlugin_init c i prio icon tip)\<lparr>widget := wd, plugin_registrables := rs\<rparr>) = w
        \<and> (map_of (plugins svc) i = None \<longrightarrow>
             (\<exists>svc'. addPlugin svc (BasePlugin_init c i prio icon tip) = (None, svc')
                \<and> plugins svc' = plugins svc @ [(i, BasePlugin_init c i prio icon tip)]
                \<and> emitted (plugin_registry svc')
                    = emitted (plugin_registry svc)
                      @ [registrableAdded (BasePlugin_init c i prio icon tip)])))"
proof -
  let ?p = "BasePlugin_init c i prio icon tip"
  have btn: "navigationBarButton ?p \<noteq> None \<longleftrightarrow> truthy icon \<and> truthy tip"
    by (simp add: navigationBarButton_def BasePlugin_init_def)
  have id: "ident ?p = i"
    by (simp add: BasePlugin_init_def)
  have no_entry: "MainWindow_addPlugin w (?p\<lparr>widget := wd, plugin_registrables := rs\<rparr>) = w"
    if "\<not> (truthy icon \<and> truthy tip)"
    using that by (auto simp: MainWindow_addPlugin_def navigationBarButton_def
        BasePlugin_init_def Let_def)
  have reg: "\<exists>svc'. addPlugin svc ?p = (None, svc')
                \<and> plugins svc' = plugins svc @ [(i, ?p)]
                \<and> emitted (plugin_registry svc')
                    = emitted (plugin_registry svc) @ [registrableAdded ?p]"
    if "map_of (plugins svc) i = None"
    using that id by (simp add: addPlugin_def plugins_def update_absent)
  from btn no_entry reg show ?thesis by blast
qed

theorem navigation_button_iff_witness:
  "navigationBarButton headless_plugin = None
   \<and> MainWindow_addPlugin MainWindow_init headless_plugin = MainWindow_init
   \<and> map snd (plugins (snd (addPlugin (PluginService_init :: nat PluginService)
         (BasePlugin_init (PyClass 14 ''Headless'' [BasePlugin_class])
                        (Some ''headless'') 10 None (Some ''tip'')))))
       = [BasePlugin_init (PyClass 14 ''Headless'' [BasePlugin_class])
                        (Some ''headless'') 10 None (Some ''tip'')]
   \<and> navigationBarButton plugin10 = Some \<lparr>qtaIconStr = ''ph.b'', toolTip = ''ten''\<rparr>"
  using navigation_button_iff [where c = "PyClass 14 ''Headless'' [BasePlugin_class]"
      and i = "Some ''headless''" and prio = 10 and icon = None and tip = "Some ''tip''"
      and w = MainWindow_init and wd = None and rs = "[a_dock, an_other, a_setting]"
      and svc = "PluginService_init :: nat PluginService"]
    navigation_button_iff [where c = "PyClass 12 ''P10'' [BasePlugin_class]"
      and i = "Some ''p10''" and prio = 10 and icon = "Some ''ph.b''" and tip = "Some ''ten''"
      and w = MainWindow_init and wd = None and rs = "[]"
      and svc = "PluginService_init :: nat PluginService"]
  by (auto simp: headless_plugin_def plugin10_def truthy_def PluginService_init_def
      BaseRegistry_init_def plugins_def navigationBarButton_def BasePlugin_init_def)
















section \<open>Properties of manifests and the module list\<close>

lemma ModuleMetadata_init_error: "ModuleMetadata_init obj = Inl e \<Longrightarrow> e = TypeError"
  by (auto simp: ModuleMetadata_init_def split: pyvalue.splits if_splits option.splits)

lemma ModuleMetadata_init_lacks:
  assumes "lacks_required obj"
  shows "ModuleMetadata_init obj = Inl TypeError"
proof -
  from assms obtain kw where obj: "obj = PyDict kw"
    and "''id'' \<notin> fst ` set kw \<or> ''relativePath'' \<notin> fst ` set kw
         \<or> ''displayName'' \<notin> fst ` set kw"
    by (auto simp: lacks_required_def split: pyvalue.splits)
  then have "map_of kw ''id'' = None \<or> map_of kw ''relativePath'' = None
             \<or> map_of kw ''displayName'' = None"
    by (simp add: map_of_eq_None_iff)
  then show ?thesis
    unfolding obj by (auto simp: ModuleMetadata_init_def split: option.splits)
qed

lemma modulesMetadata_of_error: "modulesMetadata_of objs = Inl e \<Longrightarrow> e = TypeError"
  by (induction objs arbitrary: e)
     (auto split: sum.splits dest: ModuleMetadata_init_error)

lemma modulesMetadata_of_lacks:
  "\<exists>obj \<in> set objs. lacks_required obj \<Longrightarrow> modulesMetadata_of objs = Inl TypeError"
proof (induction objs)
  case Nil
  then show ?case by simp
next
  case (Cons obj objs)
  show ?case
  proof (cases "ModuleMetadata_init obj")
    case (Inl e)
    then show ?thesis using ModuleMetadata_init_error by fastforce
  next
    case (Inr m)
    then have "\<not> lacks_required obj"
      using ModuleMetadata_init_lacks by fastforce
    with Cons.prems have "\<exists>obj \<in> set objs. lacks_required obj" by simp
    from Cons.IH [OF this] Inr show ?thesis by simp
  qed
qed

lemma loadFromFile_NotJson:
  "read_json os (resolve os p) = NotJson \<Longrightarrow> loadFromFile os p = Inl JSONDecodeError"
  by (simp add: loadFromFile_def)

lemma loadFromFile_lacks:
  "read_json os (resolve os p) = Json (PyList objs) \<Longrightarrow> \<exists>obj \<in> set objs. lacks_required obj \<Longrightarrow>
   loadFromFile os p = Inl TypeError"
  by (simp add: loadFromFile_def iterate_def modulesMetadata_of_lacks)

lemma load_repositories_append:
  "load_repositories os self (pre @ rest) =
     (case load_repositories os self pre of
        (Some e, s) \<Rightarrow> (Some e, s)
      | (None, s) \<Rightarrow> load_repositories os s rest)"
  by (induction pre arbitrary: self) (auto split: sum.splits prod.splits option.splits)

text \<open>
  Claim C6. \<^verbatim>\<open>Repository.loadFromFile\<close> raises on a manifest that is no
  well-formed JSON (\<^verbatim>\<open>json.JSONDecodeError\<close>) and on a JSON array with an entry
  that lacks a required field (\<^verbatim>\<open>TypeError\<close> from the dataclass constructor);
  these two are the manifest parse errors. \<^verbatim>\<open>PluginService.load\<close> then raises
  the same error and leaves the service as it was after the manifests read
  before: no module of the failing manifest is added, its well-formed entries
  included.
\<close>

theorem manifest_fail_fast:
  fixes self :: "'p PluginService"
  assumes "read_json os (resolve os p) = NotJson
           \<or> (\<exists>objs. read_json os (resolve os p) = Json (PyList objs)
                    \<and> (\<exists>obj \<in> set objs. lacks_required obj))"
    and "load_repositories os self before = (None, loaded)"
  shows "\<exists>e. e = (if read_json os (resolve os p) = NotJson then JSONDecodeError else TypeError)
            \<and> loadFromFile os p = Inl e
            \<and> PluginService_load os ctor self (before @ p # rest) moduleIds = (Some e, loaded)"
proof (cases "read_json os (resolve os p) = NotJson")
  case True
  then have l: "loadFromFile os p = Inl JSONDecodeError"
    by (rule loadFromFile_NotJson)
  then have "load_repositories os loaded (p # rest) = (Some JSONDecodeError, loaded)"
    by simp
  with assms(2) have "PluginService_load os ctor self (before @ p # rest) moduleIds
                        = (Some JSONDecodeError, loaded)"
    by (simp add: PluginService_load_def load_repositories_append)
  with l True show ?thesis by simp
next
  case False
  with assms(1) obtain objs where "read_json os (resolve os p) = Json (PyList objs)"
    and "\<exists>obj \<in> set objs. lacks_required obj" by blast
  then have l: "loadFromFile os p = Inl TypeError"
    by (rule loadFromFile_lacks)
  then have "load_repositories os loaded (p # rest) = (Some TypeError, loaded)"
    by simp
  with assms(2) have "PluginService_load os ctor self (before @ p # rest) moduleIds
                        = (Some TypeError, loaded)"
    by (simp add: PluginService_load_def load_repositories_append)
  with l False show ?thesis by simp
qed


theorem manifest_fail_fast_witness:
  "PluginService_load demo_os construct_plugin (PluginService_init :: string list PluginService)
      [[''repo'', ''bad.json'']] [''a'', ''b'']
     = (Some TypeError, PluginService_init)
   \<and> PluginService_load demo_os construct_plugin (PluginService_init :: string list PluginService)
      [[''repo'', ''broken.json'']] [''a'', ''b'']
     = (Some JSONDecodeError, PluginService_init)"
proof -
  have bad: "read_json demo_os (resolve demo_os [''repo'', ''bad.json''])
               = Json (PyList [entry_a, entry_bad])"
    by (simp add: demo_os_def)
  have lacks: "\<exists>obj \<in> set [entry_a, entry_bad]. lacks_required obj"
    by (simp add: lacks_required_def entry_bad_def)
  have broken: "read_json demo_os (resolve demo_os [''repo'', ''broken.json'']) = NotJson"
    by (simp add: demo_os_def)
  have start: "load_repositories demo_os (PluginService_init :: string list PluginService) []
                 = (None, PluginService_init)"
    by simp
  from manifest_fail_fast [where os = demo_os and p = "[''repo'', ''bad.json'']"
      and self = "PluginService_init :: string list PluginService" and before = "[]"
      and loaded = PluginService_init and rest = "[]" and ctor = construct_plugin
      and moduleIds = "[''a'', ''b'']"] bad lacks start
  have "PluginService_load demo_os construct_plugin
          (PluginService_init :: string list PluginService) [[''repo'', ''bad.json'']] [''a'', ''b'']
        = (Some TypeError, PluginService_init)"
    by auto
  moreover
  from manifest_fail_fast [where os = demo_os and p = "[''repo'', ''broken.json'']"
      and self = "PluginService_init :: string list PluginService" and before = "[]"
      and loaded = PluginService_init and rest = "[]" and ctor = construct_plugin
      and moduleIds = "[''a'', ''b'']"] broken start
  have "PluginService_load demo_os construct_plugin
          (PluginService_init :: string list PluginService) [[''repo'', ''broken.json'']] [''a'', ''b'']
        = (Some JSONDecodeError, PluginService_init)"
    by auto
  ultimately show ?thesis by simp
qed

lemma represents_init: "represents obj md \<Longrightarrow> ModuleMetadata_init obj = Inr md"
  by (auto simp: represents_def ModuleMetadata_init_def split: pyvalue.splits option.splits)

lemma represents_all: "list_all2 represents objs mds \<Longrightarrow> modulesMetadata_of objs = Inr mds"
  by (induction objs mds rule: list_all2_induct) (simp_all add: represents_init)

lemma Module_init_str:
  "is_str (md_relativePath md) \<Longrightarrow>
   Module_init os a d md
     = Inr \<lparr>addr = a, module_id = md_id md, module_displayName = md_displayName md,
            module_description = md_description md,
            module_path = joinpath os d (str_of (md_relativePath md)), enabled = False\<rparr>"
  by (cases "md_relativePath md") (simp_all add: Module_init_def)

text \<open>
  Claim C7. When a manifest file holds the JSON array of the objects that
  represent a list of \<^verbatim>\<open>ModuleMetadata\<close> (with string relative paths),
  \<^verbatim>\<open>loadFromFile\<close> returns a repository whose base path is the parent of the
  resolved manifest path, with one metadata per original; the \<^verbatim>\<open>Module\<close> built
  from the k-th has the id, display name and description of the k-th original
  and the path \<^verbatim>\<open>basePath.joinpath(relativePath)\<close>.
\<close>

theorem manifest_round_trip:
  assumes "read_json os (resolve os p) = Json (PyList objs)"
    and "list_all2 represents objs mds"
    and "\<forall>md \<in> set mds. is_str (md_relativePath md)"
  shows "\<exists>repository.
           loadFromFile os p = Inr repository
         \<and> repo_path repository = parent os (resolve os p)
         \<and> length (modulesMetadata repository) = length mds
         \<and> (\<forall>k < length mds. \<forall>a. \<exists>m.
               Module_init os a (repo_path repository) (modulesMetadata repository ! k) = Inr m
             \<and> module_id m = md_id (mds ! k)
             \<and> module_displayName m = md_displayName (mds ! k)
             \<and> module_description m = md_description (mds ! k)
             \<and> module_path m
                 = joinpath os (parent os (resolve os p)) (str_of (md_relativePath (mds ! k))))"
proof -
  let ?repo = "\<lparr>repo_path = parent os (resolve os p), modulesMetadata = mds\<rparr>"
  have loaded: "loadFromFile os p = Inr ?repo"
    using assms(1) represents_all [OF assms(2)]
    by (simp add: loadFromFile_def iterate_def)
  have "\<exists>m. Module_init os a (repo_path ?repo) (modulesMetadata ?repo ! k) = Inr m
             \<and> module_id m = md_id (mds ! k)
             \<and> module_displayName m = md_displayName (mds ! k)
             \<and> module_description m = md_description (mds ! k)
             \<and> module_path m
                 = joinpath os (parent os (resolve os p)) (str_of (md_relativePath (mds ! k)))"
    if "k < length mds" for k a
  proof -
    from that assms(3) have "is_str (md_relativePath (mds ! k))" by simp
    from Module_init_str [OF this, of os a "parent os (resolve os p)"] show ?thesis by simp
  qed
  with loaded show ?thesis by (intro exI [of _ ?repo]) simp
qed


theorem manifest_round_trip_witness:
  "\<exists>repository.
      loadFromFile demo_os [''repo'', ''ok.json''] = Inr repository
    \<and> repo_path repository = [''repo'']
    \<and> (\<exists>m. Module_init demo_os 7 (repo_path repository) (modulesMetadata repository ! 1) = Inr m
          \<and> module_id m = PyStr ''a''
          \<and> module_displayName m = PyStr ''A again''
          \<and> module_description m = PyNone
          \<and> module_path m = [''repo'', ''mods/a2''])"
proof -
  have content: "read_json demo_os (resolve demo_os [''repo'', ''ok.json''])
                = Json (PyList [entry_a, entry_a2])"
    by (simp add: demo_os_def)
  have reps: "list_all2 represents [entry_a, entry_a2] [metadata_a, metadata_a2]"
    by (simp add: represents_def entry_a_def entry_a2_def metadata_a_def metadata_a2_def
        field_names_def)
  have strs: "\<forall>md \<in> set [metadata_a, metadata_a2]. is_str (md_relativePath md)"
    by (simp add: metadata_a_def metadata_a2_def)
  from manifest_round_trip [OF content reps strs] obtain repository where
    r: "loadFromFile demo_os [''repo'', ''ok.json''] = Inr repository"
      "repo_path repository = parent demo_os (resolve demo_os [''repo'', ''ok.json''])"
    and each: "\<forall>k < length [metadata_a, metadata_a2]. \<forall>a. \<exists>m.
               Module_init demo_os a (repo_path repository) (modulesMetadata repository ! k) = Inr m
             \<and> module_id m = md_id ([metadata_a, metadata_a2] ! k)
             \<and> module_displayName m = md_displayName ([metadata_a, metadata_a2] ! k)
             \<and> module_description m = md_description ([metadata_a, metadata_a2] ! k)
             \<and> module_path m
                 = joinpath demo_os (parent demo_os (resolve demo_os [''repo'', ''ok.json'']))
                     (str_of (md_relativePath ([metadata_a, metadata_a2] ! k)))"
    by blast
  from each [rule_format, of 1 7] obtain m where
    "Module_init demo_os 7 (repo_path repository) (modulesMetadata repository ! 1) = Inr m"
    "module_id m = PyStr ''a''" "module_displayName m = PyStr ''A again''"
    "module_description m = PyNone" "module_path m = [''repo'', ''mods/a2'']"
    by (auto simp: metadata_a2_def demo_os_def)
  with r show ?thesis by (auto simp: demo_os_def)
qed

lemma isPresent_fresh:
  "modules_allocated self \<Longrightarrow> addr m = fresh self \<Longrightarrow>
   \<not> isPresent (moduleListModel (self\<lparr>fresh := Suc (fresh self)\<rparr>)) m"
  by (auto simp: modules_allocated_def isPresent_def)

lemma addModule_fresh:
  assumes "modules_allocated self" and "addr m = fresh self"
  shows "addModule (self\<lparr>fresh := Suc (fresh self)\<rparr>) m
           = self\<lparr>moduleListModel :=
                    (moduleListModel self)\<lparr>items := items (moduleListModel self) @ [m],
                                           itemAdded := itemAdded (moduleListModel self) @ [m]\<rparr>,
                  fresh := Suc (fresh self)\<rparr>"
  using isPresent_fresh [OF assms] by (simp add: addModule_def appendItem_def)

lemma addModules_appends:
  assumes "modules_allocated self"
    and "\<forall>md \<in> set mds. is_str (md_relativePath md)"
  shows "\<exists>new. addModules os self d mds
                 = (None, self\<lparr>moduleListModel :=
                            (moduleListModel self)\<lparr>items := items (moduleListModel self) @ new,
                               itemAdded := itemAdded (moduleListModel self) @ new\<rparr>,
                          fresh := fresh self + length mds\<rparr>)
             \<and> length new = length mds
             \<and> (\<forall>k < length mds. Module_init os (fresh self + k) d (mds ! k) = Inr (new ! k))"
  using assms
proof (induction mds arbitrary: self)
  case Nil
  then show ?case by simp
next
  case (Cons md mds)
  let ?m = "\<lparr>addr = fresh self, module_id = md_id md, module_displayName = md_displayName md,
            module_description = md_description md,
            module_path = joinpath os d (str_of (md_relativePath md)), enabled = False\<rparr>"
  let ?next = "self\<lparr>moduleListModel :=
                    (moduleListModel self)\<lparr>items := items (moduleListModel self) @ [?m],
                                           itemAdded := itemAdded (moduleListModel self) @ [?m]\<rparr>,
                  fresh := Suc (fresh self)\<rparr>"
  from Cons.prems(2) have init: "Module_init os (fresh self) d md = Inr ?m"
    by (simp add: Module_init_str)
  have added: "addModule (self\<lparr>fresh := Suc (fresh self)\<rparr>) ?m = ?next"
    using Cons.prems(1) by (intro addModule_fresh) simp_all
  have alloc: "modules_allocated ?next"
    using Cons.prems(1) by (auto simp: modules_allocated_def)
  from Cons.prems(2) have "\<forall>md \<in> set mds. is_str (md_relativePath md)" by simp
  from Cons.IH [OF alloc this] obtain new where
    run: "addModules os ?next d mds
            = (None, ?next\<lparr>moduleListModel :=
                       (moduleListModel ?next)\<lparr>items := items (moduleListModel ?next) @ new,
                          itemAdded := itemAdded (moduleListModel ?next) @ new\<rparr>,
                     fresh := fresh ?next + length mds\<rparr>)"
    and len: "length new = length mds"
    and each: "\<forall>k < length mds. Module_init os (fresh ?next + k) d (mds ! k) = Inr (new ! k)"
    by blast
  have "addModules os self d (md # mds)
          = (None, self\<lparr>moduleListModel :=
                      (moduleListModel self)\<lparr>items := items (moduleListModel self) @ (?m # new),
                         itemAdded := itemAdded (moduleListModel self) @ (?m # new)\<rparr>,
                    fresh := fresh self + length (md # mds)\<rparr>)"
    using init added run by simp
  moreover have "length (?m # new) = length (md # mds)"
    using len by simp
  moreover have "\<forall>k < length (md # mds).
                   Module_init os (fresh self + k) d ((md # mds) ! k) = Inr ((?m # new) ! k)"
  proof (intro allI impI)
    fix k assume "k < length (md # mds)"
    then show "Module_init os (fresh self + k) d ((md # mds) ! k) = Inr ((?m # new) ! k)"
      using init each by (cases k) simp_all
  qed
  ultimately show ?case by blast
qed



lemma modules_allocated_init: "modules_allocated PluginService_init"
  by (simp add: modules_allocated_def PluginService_init_def)

text \<open>
  Claim C9. Ingesting a repository (whose relative paths are strings) raises
  nothing and appends to the module list one new \<^verbatim>\<open>Module\<close> per
  \<^verbatim>\<open>ModuleMetadata\<close>, in order, each built by \<^verbatim>\<open>Module.__init__\<close> with the
  metadata's id and \<^verbatim>\<open>enabled = False\<close>. Nothing compares ids: the only test,
  \<^verbatim>\<open>isPresent\<close>, compares object identities and the new objects are new, so a
  module whose id is already in the list is appended as a further entry.
\<close>

theorem repository_modules_appended:
  fixes self :: "'p PluginService"
  assumes "modules_allocated self"
    and "\<forall>md \<in> set (modulesMetadata repository). is_str (md_relativePath md)"
  shows "\<exists>self' new.
           addModulesFromRepository os self repository = (None, self')
         \<and> items (moduleListModel self') = items (moduleListModel self) @ new
         \<and> length new = length (modulesMetadata repository)
         \<and> (\<forall>k < length (modulesMetadata repository).
               Module_init os (fresh self + k) (repo_path repository)
                   (modulesMetadata repository ! k) = Inr (new ! k)
             \<and> module_id (new ! k) = md_id (modulesMetadata repository ! k)
             \<and> enabled (new ! k) = False)
         \<and> modules_allocated self'"
proof -
  let ?mds = "modulesMetadata repository"
  from addModules_appends [OF assms, of os "repo_path repository"] obtain new where
    run: "addModules os self (repo_path repository) ?mds
            = (None, self\<lparr>moduleListModel :=
                       (moduleListModel self)\<lparr>items := items (moduleListModel self) @ new,
                          itemAdded := itemAdded (moduleListModel self) @ new\<rparr>,
                     fresh := fresh self + length ?mds\<rparr>)"
    and len: "length new = length ?mds"
    and each: "\<forall>k < length ?mds.
                 Module_init os (fresh self + k) (repo_path repository) (?mds ! k) = Inr (new ! k)"
    by blast
  let ?self' = "self\<lparr>moduleListModel :=
                       (moduleListModel self)\<lparr>items := items (moduleListModel self) @ new,
                          itemAdded := itemAdded (moduleListModel self) @ new\<rparr>,
                     fresh := fresh self + length ?mds\<rparr>"
  have fields: "module_id (new ! k) = md_id (?mds ! k) \<and> enabled (new ! k) = False
                \<and> addr (new ! k) = fresh self + k"
    if "k < length ?mds" for k
  proof -
    from that assms(2) have "is_str (md_relativePath (?mds ! k))" by simp
    from Module_init_str [OF this, of os "fresh self + k" "repo_path repository"]
      each [rule_format, OF that]
    have "new ! k = \<lparr>addr = fresh self + k, module_id = md_id (?mds ! k),
            module_displayName = md_displayName (?mds ! k),
            module_description = md_description (?mds ! k),
            module_path = joinpath os (repo_path repository) (str_of (md_relativePath (?mds ! k))),
            enabled = False\<rparr>"
      by simp
    then show ?thesis by simp
  qed
  have alloc: "modules_allocated ?self'"
    unfolding modules_allocated_def
  proof
    fix m assume "m \<in> set (items (moduleListModel ?self'))"
    then consider "m \<in> set (items (moduleListModel self))" | "m \<in> set new" by auto
    then show "addr m < fresh ?self'"
    proof cases
      case 1
      with assms(1) show ?thesis by (auto simp: modules_allocated_def)
    next
      case 2
      then obtain k where "k < length new" "m = new ! k" by (auto simp: in_set_conv_nth)
      with fields len show ?thesis by simp
    qed
  qed
  have result: "addModulesFromRepository os self repository = (None, ?self')"
    using run by (simp add: addModulesFromRepository_def)
  have appended: "items (moduleListModel ?self') = items (moduleListModel self) @ new"
    by simp
  have every: "\<forall>k < length ?mds.
               Module_init os (fresh self + k) (repo_path repository) (?mds ! k) = Inr (new ! k)
             \<and> module_id (new ! k) = md_id (?mds ! k)
             \<and> enabled (new ! k) = False"
  proof (intro allI impI)
    fix k assume k: "k < length ?mds"
    from each [rule_format, OF k] fields [OF k]
    show "Module_init os (fresh self + k) (repo_path repository) (?mds ! k) = Inr (new ! k)
             \<and> module_id (new ! k) = md_id (?mds ! k)
             \<and> enabled (new ! k) = False"
      by simp
  qed
  show ?thesis
    by (rule exI [of _ ?self'], rule exI [of _ new], intro conjI)
       (rule result, rule appended, rule len, rule every, rule alloc)
qed



theorem repository_modules_appended_witness:
  "\<exists>self'. addModulesFromRepository demo_os (PluginService_init :: string list PluginService)
              \<lparr>repo_path = [''repo''], modulesMetadata = [metadata_a, metadata_a2]\<rparr> = (None, self')
      \<and> map module_id (items (moduleListModel self')) = [PyStr ''a'', PyStr ''a'']
      \<and> map enabled (items (moduleListModel self')) = [False, False]"
proof -
  let ?repo = "\<lparr>repo_path = [''repo''], modulesMetadata = [metadata_a, metadata_a2]\<rparr>"
  let ?init = "PluginService_init :: string list PluginService"
  have strs: "\<forall>md \<in> set (modulesMetadata ?repo). is_str (md_relativePath md)"
    by (simp add: metadata_a_def metadata_a2_def)
  have alloc: "modules_allocated ?init"
    by (rule modules_allocated_init)
  note appended = repository_modules_appended [OF alloc strs, of demo_os]
  then obtain self' where "\<exists>new.
           addModulesFromRepository demo_os ?init ?repo = (None, self')
         \<and> items (moduleListModel self') = items (moduleListModel ?init) @ new
         \<and> length new = length (modulesMetadata ?repo)
         \<and> (\<forall>k < length (modulesMetadata ?repo).
               Module_init demo_os (fresh ?init + k) (repo_path ?repo)
                   (modulesMetadata ?repo ! k) = Inr (new ! k)
             \<and> module_id (new ! k) = md_id (modulesMetadata ?repo ! k)
             \<and> enabled (new ! k) = False)
         \<and> modules_allocated self'" ..
  then obtain new where
    all: "addModulesFromRepository demo_os ?init ?repo = (None, self')
         \<and> items (moduleListModel self') = items (moduleListModel ?init) @ new
         \<and> length new = length (modulesMetadata ?repo)
         \<and> (\<forall>k < length (modulesMetadata ?repo).
               Module_init demo_os (fresh ?init + k) (repo_path ?repo)
                   (modulesMetadata ?repo ! k) = Inr (new ! k)
             \<and> module_id (new ! k) = md_id (modulesMetadata ?repo ! k)
             \<and> enabled (new ! k) = False)
         \<and> modules_allocated self'" ..
  note run = all [THEN conjunct1]
    and its = all [THEN conjunct2, THEN conjunct1]
    and len = all [THEN conjunct2, THEN conjunct2, THEN conjunct1]
    and each = all [THEN conjunct2, THEN conjunct2, THEN conjunct2, THEN conjunct1]
  have len2: "length new = Suc (Suc 0)"
    using len by simp
  then obtain m0 m1 where new: "new = [m0, m1]"
    by (cases new; cases "tl new"; simp)
  have k0: "(0::nat) < length (modulesMetadata ?repo)" and k1: "(1::nat) < length (modulesMetadata ?repo)"
    by simp_all
  from each [rule_format, OF k0] new have m0: "module_id m0 = PyStr ''a''" "enabled m0 = False"
    by (simp_all add: metadata_a_def)
  from each [rule_format, OF k1] new have m1: "module_id m1 = PyStr ''a''" "enabled m1 = False"
    by (simp_all add: metadata_a2_def)
  have old: "items (moduleListModel ?init) = []"
    by (simp add: PluginService_init_def)
  have "map module_id (items (moduleListModel self')) = [PyStr ''a'', PyStr ''a'']"
    and "map enabled (items (moduleListModel self')) = [False, False]"
    using its old new m0 m1 by simp_all
  with run show ?thesis by (intro exI [of _ self']) simp
qed


end
